theory Spec2Isabelle
  imports Complex_Main "HOL-Library.Char_ord" "HOL-Library.List_Lexorder" "HOL-Library.Sublist"
    "HOL-Library.FSet"
begin

section \<open>Python values used by the search engine\<close>

text \<open>
  The engine of \<^verbatim>\<open>utils/hr_search_engine.py\<close> reads a spreadsheet into a
  pandas data frame, derives a skill set per row, embeds the role texts and answers
  queries by retrieval, hard filters, a weighted score, a sort and a cut.

  Conventions of the embedding:
  \<^item> a Python \<^verbatim>\<open>str\<close> is a \<^typ>\<open>string\<close>; a \<^typ>\<open>char\<close> stands for a code
    point below 256;
  \<^item> a Python \<^verbatim>\<open>float\<close> is a \<^typ>\<open>real\<close>: rounding of the binary format is
    outside the model;
  \<^item> a Python \<^verbatim>\<open>int\<close> is an \<^typ>\<open>int\<close>;
  \<^item> a Python \<^verbatim>\<open>set\<close> is a finite set (\<open>fset\<close>), \<^verbatim>\<open>len\<close> is \<open>fcard\<close>;
  \<^item> a spreadsheet cell is text, an integer or missing (NaN); the age of a text
    cell can be any integer that \<^verbatim>\<open>int\<close> parses;
  \<^item> an exception is a value of type \<open>error\<close>, returned as \<open>Inl\<close>.
\<close>

datatype cell = CStr string | CInt int | CNaN

datatype error =
    MissingColumns "string fset"
  | IntConversionError cell
  | ZeroDivisionError
  | OverflowError
  | IndexError
  | AssertionError
  | EncodeError

subsection \<open>Built-in string operations\<close>

definition py_isspace :: "char \<Rightarrow> bool" where
  "py_isspace c = (of_char c \<in> {9, 10, 11, 12, 13, 28, 29, 30, 31, 32, 133, 160 :: nat})"

definition py_strip :: "string \<Rightarrow> string" where
  "py_strip s = rev (dropWhile py_isspace (rev (dropWhile py_isspace s)))"

definition py_lower_char :: "char \<Rightarrow> char" where
  "py_lower_char c =
     (let n = of_char c :: nat
      in if (65 \<le> n \<and> n \<le> 90) \<or> (192 \<le> n \<and> n \<le> 222 \<and> n \<noteq> 215)
         then char_of (n + 32) else c)"

definition py_lower :: "string \<Rightarrow> string" where
  "py_lower s = map py_lower_char s"

fun py_split :: "char \<Rightarrow> string \<Rightarrow> string list" where
  "py_split sep [] = [[]]"
| "py_split sep (c # cs) =
     (if c = sep then [] # py_split sep cs
      else (case py_split sep cs of
              p # ps \<Rightarrow> (c # p) # ps
            | [] \<Rightarrow> [[c]]))"

definition digit_char :: "nat \<Rightarrow> char" where
  "digit_char n = char_of (48 + n)"

fun str_nat :: "nat \<Rightarrow> string" where
  "str_nat n = (if n < 10 then [digit_char n] else str_nat (n div 10) @ [digit_char (n mod 10)])"

declare str_nat.simps [simp del]

definition str_int :: "int \<Rightarrow> string" where
  "str_int i = (if i < 0 then CHR ''-'' # str_nat (nat (- i)) else str_nat (nat i))"

text \<open>\<^verbatim>\<open>str(s)\<close> on a cell.\<close>

fun py_str :: "cell \<Rightarrow> string" where
  "py_str (CStr s) = s"
| "py_str (CInt i) = str_int i"
| "py_str CNaN = ''nan''"

definition is_digit :: "char \<Rightarrow> bool" where
  "is_digit c = (48 \<le> (of_char c :: nat) \<and> (of_char c :: nat) \<le> 57)"

fun no_double_underscore :: "string \<Rightarrow> bool" where
  "no_double_underscore (a # b # cs) =
     (\<not> (a = CHR ''_'' \<and> b = CHR ''_'') \<and> no_double_underscore (b # cs))"
| "no_double_underscore _ = True"

definition digits_value :: "string \<Rightarrow> nat" where
  "digits_value s = foldl (\<lambda>acc c. 10 * acc + (of_char c - 48)) 0 (filter is_digit s)"

definition MAX_STR_DIGITS :: nat where
  "MAX_STR_DIGITS = 4300"

text \<open>
  \<^verbatim>\<open>int(s)\<close> on text: surrounding whitespace, an optional sign, then decimal digits
  which single underscores may separate. The interpreter refuses a text of more than
  \<open>MAX_STR_DIGITS\<close> digit characters (its default limit; sign, underscores and
  whitespace do not count), again with a \<^verbatim>\<open>ValueError\<close>.
\<close>

definition int_of_text :: "string \<Rightarrow> int option" where
  "int_of_text s =
     (let t = py_strip s;
          neg = (t \<noteq> [] \<and> hd t = CHR ''-'');
          body = (if t \<noteq> [] \<and> (hd t = CHR ''-'' \<or> hd t = CHR ''+'') then tl t else t)
      in if body \<noteq> [] \<and> list_all (\<lambda>c. is_digit c \<or> c = CHR ''_'') body
            \<and> is_digit (hd body) \<and> is_digit (last body) \<and> no_double_underscore body
            \<and> length (filter is_digit body) \<le> MAX_STR_DIGITS
         then Some (if neg then - int (digits_value body) else int (digits_value body))
         else None)"

text \<open>\<^verbatim>\<open>int(x)\<close> on a cell; it raises on a missing value and on text that is no number.\<close>

fun py_int :: "cell \<Rightarrow> error + int" where
  "py_int (CInt i) = Inr i"
| "py_int (CStr s) = (case int_of_text s of None \<Rightarrow> Inl (IntConversionError (CStr s)) | Some i \<Rightarrow> Inr i)"
| "py_int CNaN = Inl (IntConversionError CNaN)"

text \<open>Float formatting \<^verbatim>\<open>f"{x:.2f}"\<close>: two decimals, ties to the even digit.\<close>

definition round_half_even :: "real \<Rightarrow> int" where
  "round_half_even x =
     (let f = \<lfloor>x\<rfloor>; d = x - of_int f
      in if d < 1 / 2 then f else if 1 / 2 < d then f + 1 else if even f then f else f + 1)"

definition fmt_2f :: "real \<Rightarrow> string" where
  "fmt_2f x =
     (let m = nat (round_half_even (\<bar>x\<bar> * 100))
      in (if x < 0 then ''-'' else []) @ str_nat (m div 100) @ ''.''
         @ [digit_char (m mod 100 div 10), digit_char (m mod 10)])"

text \<open>\<^verbatim>\<open>xs[:k]\<close>: a negative bound counts from the end.\<close>

definition py_slice_to :: "int \<Rightarrow> 'a list \<Rightarrow> 'a list" where
  "py_slice_to k xs = (if 0 \<le> k then take (nat k) xs else take (length xs - nat (- k)) xs)"

text \<open>\<^verbatim>\<open>df.iloc[idx]\<close>: positional access, negative positions count from the end.\<close>

definition iloc :: "'a list \<Rightarrow> int \<Rightarrow> error + 'a" where
  "iloc xs i =
     (if 0 \<le> i \<and> i < int (length xs) then Inr (xs ! nat i)
      else if i < 0 \<and> - int (length xs) \<le> i then Inr (xs ! nat (int (length xs) + i))
      else Inl IndexError)"

text \<open>True division \<^verbatim>\<open>a / b\<close>.\<close>

definition py_truediv :: "real \<Rightarrow> real \<Rightarrow> error + real" where
  "py_truediv a b = (if b = 0 then Inl ZeroDivisionError else Inr (a / b))"

section \<open>Configuration\<close>

definition ROLE_WEIGHT :: real where "ROLE_WEIGHT = 0.5"
definition SKILL_WEIGHT :: real where "SKILL_WEIGHT = 0.3"
definition AGE_WEIGHT :: real where "AGE_WEIGHT = 0.2"
definition TOP_K_RAW :: nat where "TOP_K_RAW = 20"

section \<open>Scoring helpers\<close>

text \<open>
  The conversion of an \<^verbatim>\<open>int\<close> to a \<^verbatim>\<open>float\<close>, which arithmetic between the two
  performs: it raises \<^verbatim>\<open>OverflowError\<close> from the magnitude \<open>2^1024 - 2^970\<close> on, the
  least integer that rounds beyond the largest double.
\<close>

definition FLOAT_OVERFLOW :: int where
  "FLOAT_OVERFLOW = 2 ^ 1024 - 2 ^ 970"

definition py_float :: "int \<Rightarrow> error + real" where
  "py_float i = (if FLOAT_OVERFLOW \<le> \<bar>i\<bar> then Inl OverflowError else Inr (of_int i))"

text \<open>
  \<^verbatim>\<open>_age_score\<close>. Outside the range, \<^verbatim>\<open>(min_age + max_age) / 2.0\<close> converts the sum
  and \<^verbatim>\<open>age - mid\<close> converts the age; the exponential of a number that is not
  positive does not overflow.
\<close>

definition age_score :: "int \<Rightarrow> int \<Rightarrow> int \<Rightarrow> error + real" where
  "age_score a min_age max_age =
     (if min_age \<le> a \<and> a \<le> max_age then Inr 1.0
      else (case py_float (min_age + max_age) of
              Inl e \<Rightarrow> Inl e
            | Inr bounds \<Rightarrow>
                let mid = bounds / 2.0
                in (case py_float a of
                      Inl e \<Rightarrow> Inl e
                    | Inr fa \<Rightarrow> Inr (exp (- \<bar>fa - mid\<bar> / 10.0)))))"

definition skills_match_ratio :: "string fset \<Rightarrow> string fset \<Rightarrow> error + real" where
  "skills_match_ratio candidate_skills required_keywords =
     (if required_keywords = {||} then Inr 1.0
      else if \<not> required_keywords |\<subseteq>| candidate_skills then Inr 0.0
      else py_truediv (real (fcard required_keywords)) (real (max (fcard candidate_skills) 1)))"

section \<open>Loading\<close>

record dataframe =
  columns :: "string list"
  rows :: "(string \<Rightarrow> cell) list"

record row =
  cells :: "string \<Rightarrow> cell"
  skill_set :: "string fset"

definition required_cols :: "string fset" where
  "required_cols =
     {|''Employee Name'', ''Employee Skills'', ''Employee Age'',
       ''Employee Roles & Responsibilities''|}"

definition fillna :: "string \<Rightarrow> cell \<Rightarrow> cell" where
  "fillna v c = (case c of CNaN \<Rightarrow> CStr v | _ \<Rightarrow> c)"

definition normalise_keywords :: "string list \<Rightarrow> string fset" where
  "normalise_keywords ks =
     fset_of_list (map (\<lambda>k. py_lower (py_strip k)) (filter (\<lambda>k. py_strip k \<noteq> []) ks))"

definition derive_skill_set :: "cell \<Rightarrow> string fset" where
  "derive_skill_set s = normalise_keywords (py_split (CHR '','') (py_str s))"

text \<open>
  \<^verbatim>\<open>_load_and_prepare\<close>, from the parsed sheet on (\<^verbatim>\<open>pd.read_excel\<close> is the
  spreadsheet decoder). The \<^verbatim>\<open>ValueError\<close> carries the set of missing columns, which
  the message prints.
\<close>

definition load_and_prepare :: "dataframe \<Rightarrow> error + row list" where
  "load_and_prepare sheet =
     (let missing = required_cols |-| fset_of_list (columns sheet)
      in if missing \<noteq> {||} then Inl (MissingColumns missing)
         else Inr (map (\<lambda>r. \<lparr>cells = r,
                               skill_set = derive_skill_set (fillna [] (r ''Employee Skills''))\<rparr>)
                       (rows sheet)))"

section \<open>The vector index\<close>

definition inner_product :: "real list \<Rightarrow> real list \<Rightarrow> real" where
  "inner_product xs ys = sum_list (map2 (*) xs ys)"

definition PAD_SIMILARITY :: real where
  "PAD_SIMILARITY = - (2 ^ 128 - 2 ^ 104)"

text \<open>
  Modelled from the spec: the Vector Index (\<^verbatim>\<open>faiss.IndexFlatIP\<close>, a library outside
  the repository). A query returns (position, similarity) pairs by descending inner
  product, ties by the lower position, \<open>min n stored\<close> of them; the library fills the
  rest of the \<open>n\<close> slots with position \<open>-1\<close>, which the engine skips.
\<close>

definition faiss_search :: "real list list \<Rightarrow> real list \<Rightarrow> nat \<Rightarrow> (int \<times> real) list" where
  "faiss_search vecs q n =
     (let scored = zip (map int [0..<length vecs]) (map (inner_product q) vecs);
          ranked = take n (sort_key (\<lambda>p. - snd p) scored)
      in ranked @ replicate (n - length ranked) (- 1, PAD_SIMILARITY))"

section \<open>The engine\<close>

text \<open>
  The embedding model is a parameter: \<^verbatim>\<open>encode(texts, normalize_embeddings=True)\<close>
  followed by the cast to float32 either raises or returns one vector per text.
\<close>

type_synonym encoder = "cell list \<Rightarrow> error + real list list"

record engine =
  df :: "row list"
  model :: encoder
  embeddings :: "real list list"
  faiss_d :: nat

text \<open>\<^verbatim>\<open>__init__\<close>: \<^verbatim>\<open>shape[1]\<close> of the embedding array does not exist when there is no row.\<close>

definition init :: "encoder \<Rightarrow> dataframe \<Rightarrow> error + engine" where
  "init m sheet =
     (case load_and_prepare sheet of
        Inl e \<Rightarrow> Inl e
      | Inr d \<Rightarrow>
          (case m (map (\<lambda>r. cells r ''Employee Roles & Responsibilities'') d) of
             Inl e \<Rightarrow> Inl e
           | Inr embs \<Rightarrow>
               (case embs of
                  [] \<Rightarrow> Inl IndexError
                | v # _ \<Rightarrow> Inr \<lparr>df = d, model = m, embeddings = embs, faiss_d = length v\<rparr>)))"

record candidate =
  name :: cell
  age :: int
  skills :: "string list"
  roles :: cell
  score :: real
  justification :: string

definition required_keywords_of :: "string list option \<Rightarrow> string fset" where
  "required_keywords_of req_skills =
     normalise_keywords (case req_skills of None \<Rightarrow> [] | Some l \<Rightarrow> l)"

text \<open>
  The body of the loop of \<^verbatim>\<open>search\<close> for one retrieved pair: \<open>Inr None\<close> is
  \<^verbatim>\<open>continue\<close>, \<open>Inr (Some c)\<close> appends \<open>c\<close>.
\<close>

definition score_row ::
  "row list \<Rightarrow> string fset \<Rightarrow> int \<Rightarrow> int \<Rightarrow> int \<times> real \<Rightarrow> error + candidate option" where
  "score_row d required_keywords age_min age_max p =
     (case p of (idx, sim) \<Rightarrow>
        if idx = - 1 then Inr None
        else
          (case iloc d idx of
             Inl e \<Rightarrow> Inl e
           | Inr r \<Rightarrow>
               if required_keywords \<noteq> {||} \<and> \<not> required_keywords |\<subseteq>| skill_set r then Inr None
               else
                 (case skills_match_ratio (skill_set r) required_keywords of
                    Inl e \<Rightarrow> Inl e
                  | Inr skill_ratio \<Rightarrow>
                      (case py_int (cells r ''Employee Age'') of
                         Inl e \<Rightarrow> Inl e
                       | Inr a \<Rightarrow>
                           (case age_score a age_min age_max of
                              Inl e \<Rightarrow> Inl e
                            | Inr age_s \<Rightarrow>
                                if \<not> (age_min \<le> a \<and> a \<le> age_max) then Inr None
                                else
                                  Inr (Some
                                    \<lparr>name = cells r ''Employee Name'',
                                     age = a,
                                     skills = sorted_list_of_fset (skill_set r),
                                     roles = cells r ''Employee Roles & Responsibilities'',
                                     score = ROLE_WEIGHT * sim + SKILL_WEIGHT * skill_ratio
                                             + AGE_WEIGHT * age_s,
                                     justification =
                                       ''Role sim '' @ fmt_2f sim @ ''; ''
                                       @ (if required_keywords \<noteq> {||}
                                          then ''all required skills present; '' else [])
                                       @ ''age score '' @ fmt_2f age_s\<rparr>))))))"

fun collect ::
  "row list \<Rightarrow> string fset \<Rightarrow> int \<Rightarrow> int \<Rightarrow> (int \<times> real) list \<Rightarrow> error + candidate list" where
  "collect d kw age_min age_max [] = Inr []"
| "collect d kw age_min age_max (p # ps) =
     (case score_row d kw age_min age_max p of
        Inl e \<Rightarrow> Inl e
      | Inr c \<Rightarrow>
          (case collect d kw age_min age_max ps of
             Inl e \<Rightarrow> Inl e
           | Inr cs \<Rightarrow> Inr (case c of None \<Rightarrow> cs | Some x \<Rightarrow> x # cs)))"

text \<open>
  The candidate, if any, that the loop body appends for one retrieved pair; the loop
  collects these in pool order.
\<close>

definition kept :: "row list \<Rightarrow> string fset \<Rightarrow> int \<Rightarrow> int \<Rightarrow> int \<times> real \<Rightarrow> candidate option" where
  "kept d kw age_min age_max p =
     (case score_row d kw age_min age_max p of Inr (Some c) \<Rightarrow> Some c | _ \<Rightarrow> None)"

text \<open>
  The retrieval step of \<^verbatim>\<open>search\<close>: the query is encoded, the index checks the
  dimension of the query vector and returns the raw pool \<^verbatim>\<open>zip(I[0], D[0])\<close>.
\<close>

definition retrieve :: "engine \<Rightarrow> string \<Rightarrow> error + (int \<times> real) list" where
  "retrieve self query =
     (case model self [CStr query] of
        Inl e \<Rightarrow> Inl e
      | Inr vecs \<Rightarrow>
          (case vecs of
             [] \<Rightarrow> Inl IndexError
           | query_vec # _ \<Rightarrow>
               if length query_vec \<noteq> faiss_d self then Inl AssertionError
               else Inr (faiss_search (embeddings self) query_vec TOP_K_RAW)))"

text \<open>
  \<^verbatim>\<open>search\<close>. The stable sort with \<^verbatim>\<open>reverse=True\<close> is a stable sort by the
  negated score. The body never reads \<^verbatim>\<open>return_json\<close>.
\<close>

definition search ::
  "engine \<Rightarrow> string \<Rightarrow> string list option \<Rightarrow> int \<Rightarrow> int \<Rightarrow> int \<Rightarrow> bool
     \<Rightarrow> error + candidate list" where
  "search self query req_skills age_min age_max top_k return_json =
     (let required_keywords = required_keywords_of req_skills
      in case retrieve self query of
           Inl e \<Rightarrow> Inl e
         | Inr pool \<Rightarrow>
             (case collect (df self) required_keywords age_min age_max pool of
                Inl e \<Rightarrow> Inl e
              | Inr candidates \<Rightarrow>
                  Inr (py_slice_to top_k (sort_key (\<lambda>c. - score c) candidates))))"

section \<open>A two-row sheet\<close>

text \<open>
  A sheet with two employees, an encoder that sends the role texts and the query
  \<open>analytics\<close> to unit vectors of dimension four, and the engine built from them.
  Row 0 (Alice) has similarity \<open>1/2\<close> to the query and one skill; row 1 (Bob) has
  similarity \<open>1\<close> and six skills.
\<close>

definition mk_cells :: "string \<Rightarrow> cell \<Rightarrow> cell \<Rightarrow> string \<Rightarrow> string \<Rightarrow> cell" where
  "mk_cells n s a r c =
     (if c = ''Employee Name'' then CStr n
      else if c = ''Employee Skills'' then s
      else if c = ''Employee Age'' then a
      else if c = ''Employee Roles & Responsibilities'' then CStr r
      else CNaN)"

definition ex_cells0 :: "string \<Rightarrow> cell" where
  "ex_cells0 = mk_cells ''Alice'' (CStr ''Python'') (CInt 30) ''backend engineer''"

definition ex_cells1 :: "string \<Rightarrow> cell" where
  "ex_cells1 = mk_cells ''Bob'' (CStr ''python, SQL,dbt, snowflake ,java,go,'') (CInt 45) ''analytics engineer''"

definition ex_sheet :: dataframe where
  "ex_sheet =
     \<lparr>columns = [''Employee Name'', ''Employee Skills'', ''Employee Age'',
                 ''Employee Roles & Responsibilities''],
      rows = [ex_cells0, ex_cells1]\<rparr>"

definition ex_vec :: "cell \<Rightarrow> real list" where
  "ex_vec c =
     (if c = CStr ''backend engineer'' then [1 / 2, 1 / 2, 1 / 2, 1 / 2]
      else if c = CStr ''analytics engineer'' then [1, 0, 0, 0]
      else if c = CStr ''analytics'' then [1, 0, 0, 0]
      else [0, 1, 0, 0])"

definition ex_model :: encoder where
  "ex_model cs = Inr (map ex_vec cs)"

definition ex_rows :: "row list" where
  "ex_rows =
     [\<lparr>cells = ex_cells0, skill_set = {|''python''|}\<rparr>,
      \<lparr>cells = ex_cells1,
       skill_set = {|''python'', ''sql'', ''dbt'', ''snowflake'', ''java'', ''go''|}\<rparr>]"

definition ex_engine :: engine where
  "ex_engine =
     \<lparr>df = ex_rows, model = ex_model,
      embeddings = [[1 / 2, 1 / 2, 1 / 2, 1 / 2], [1, 0, 0, 0]], faiss_d = 4\<rparr>"

definition ex_pool :: "(int \<times> real) list" where
  "ex_pool = [(1, 1), (0, 1 / 2)] @ replicate 18 (- 1, PAD_SIMILARITY)"

definition ex_bob :: candidate where
  "ex_bob =
     \<lparr>name = CStr ''Bob'', age = 45,
      skills = [''dbt'', ''go'', ''java'', ''python'', ''snowflake'', ''sql''],
      roles = CStr ''analytics engineer'', score = 3 / 4,
      justification = ''Role sim 1.00; all required skills present; age score 1.00''\<rparr>"

definition ex_alice :: candidate where
  "ex_alice =
     \<lparr>name = CStr ''Alice'', age = 30, skills = [''python''],
      roles = CStr ''backend engineer'', score = 3 / 4,
      justification = ''Role sim 0.50; all required skills present; age score 1.00''\<rparr>"

text \<open>
  A sheet without the skills and age columns, an age bound beyond the range of a
  double, and the candidates of the example query without required skills.
\<close>

definition ex_bad_sheet :: dataframe where
  "ex_bad_sheet =
     \<lparr>columns = [''Employee Name'', ''Employee Roles & Responsibilities'', ''Salary''],
      rows = [ex_cells0]\<rparr>"


definition ex_bob_open :: candidate where
  "ex_bob_open =
     \<lparr>name = CStr ''Bob'', age = 45,
      skills = [''dbt'', ''go'', ''java'', ''python'', ''snowflake'', ''sql''],
      roles = CStr ''analytics engineer'', score = 1,
      justification = ''Role sim 1.00; age score 1.00''\<rparr>"

definition ex_alice_open :: candidate where
  "ex_alice_open =
     \<lparr>name = CStr ''Alice'', age = 30, skills = [''python''],
      roles = CStr ''backend engineer'', score = 3 / 4,
      justification = ''Role sim 0.50; age score 1.00''\<rparr>"

section \<open>Facts about the loop and the cut\<close>

lemma skills_match_ratio_total:
  "\<exists>x. skills_match_ratio cs kw = Inr x \<and> 0 \<le> x \<and> x \<le> 1"
proof -
  consider "kw = {||}" | "kw \<noteq> {||}" "\<not> kw |\<subseteq>| cs" | "kw \<noteq> {||}" "kw |\<subseteq>| cs"
    by blast
  then show ?thesis
  proof cases
    case 1
    then show ?thesis by (simp add: skills_match_ratio_def)
  next
    case 2
    then show ?thesis by (simp add: skills_match_ratio_def)
  next
    case 3
    then have le: "fcard kw \<le> fcard cs" by (simp add: fcard_mono)
    from 3 have ne: "cs \<noteq> {||}" by auto
    then have pos: "0 < fcard cs"
      by (metis fcard_fempty fcard_seteq fempty_fsubsetI not_gr_zero order.refl)
    then have m: "max (fcard cs) 1 = fcard cs" by simp
    from le pos have "real (fcard kw) / real (fcard cs) \<le> 1" by simp
    with 3 ne m show ?thesis
      by (simp add: skills_match_ratio_def py_truediv_def)
  qed
qed

lemma age_score_in_range: "lo \<le> a \<Longrightarrow> a \<le> hi \<Longrightarrow> age_score a lo hi = Inr 1"
  by (simp add: age_score_def)

lemma age_score_cases:
  "age_score a lo hi = Inl OverflowError \<or> (\<exists>v. age_score a lo hi = Inr v)"
  by (simp add: age_score_def py_float_def Let_def)

lemma age_score_representable:
  "\<bar>a\<bar> < FLOAT_OVERFLOW \<Longrightarrow> \<bar>lo + hi\<bar> < FLOAT_OVERFLOW \<Longrightarrow> \<exists>v. age_score a lo hi = Inr v"
  by (simp add: age_score_def py_float_def Let_def)

lemma age_score_overflow:
  "\<not> (lo \<le> a \<and> a \<le> hi) \<Longrightarrow> FLOAT_OVERFLOW \<le> \<bar>lo + hi\<bar> \<Longrightarrow> age_score a lo hi = Inl OverflowError"
  by (simp add: age_score_def py_float_def)

lemma FLOAT_OVERFLOW_large: "1000 < FLOAT_OVERFLOW"
proof -
  have "(2::int) ^ 970 * 1 \<le> 2 ^ 970 * (2 ^ 54 - 2)" by (intro mult_left_mono) simp_all
  moreover have "(2::int) ^ 1024 - 2 ^ 970 = 2 ^ 970 * (2 ^ 54 - 2) + 2 ^ 970"
    by (simp add: algebra_simps flip: power_add)
  moreover have "(1000::int) < 2 ^ 970"
  proof -
    have "(1000::int) < 2 ^ 10" by simp
    also have "\<dots> \<le> 2 ^ 970" by (rule power_increasing) simp_all
    finally show ?thesis .
  qed
  ultimately show ?thesis by (simp add: FLOAT_OVERFLOW_def)
qed

lemma score_row_out_of_range:
  assumes "iloc d idx = Inr r" and "py_int (cells r ''Employee Age'') = Inr a"
    and "\<not> (amin \<le> a \<and> a \<le> amax)"
  shows "score_row d kw amin amax (idx, sim) = Inr None
         \<or> score_row d kw amin amax (idx, sim) = Inl OverflowError"
    and "\<bar>a\<bar> < FLOAT_OVERFLOW \<Longrightarrow> \<bar>amin + amax\<bar> < FLOAT_OVERFLOW
         \<Longrightarrow> score_row d kw amin amax (idx, sim) = Inr None"
proof -
  obtain x where x: "skills_match_ratio (skill_set r) kw = Inr x"
    using skills_match_ratio_total by blast
  from age_score_cases [of a amin amax] assms x
  show "score_row d kw amin amax (idx, sim) = Inr None
         \<or> score_row d kw amin amax (idx, sim) = Inl OverflowError"
    by (auto simp: score_row_def)
  assume "\<bar>a\<bar> < FLOAT_OVERFLOW" and "\<bar>amin + amax\<bar> < FLOAT_OVERFLOW"
  then obtain v where "age_score a amin amax = Inr v"
    using age_score_representable by blast
  with assms x show "score_row d kw amin amax (idx, sim) = Inr None"
    by (simp add: score_row_def)
qed

lemma score_row_SomeD:
  assumes "score_row d kw amin amax (idx, sim) = Inr (Some c)"
  shows "\<exists>r ratio. idx \<noteq> - 1 \<and> iloc d idx = Inr r
           \<and> (kw = {||} \<or> kw |\<subseteq>| skill_set r)
           \<and> skills_match_ratio (skill_set r) kw = Inr ratio
           \<and> py_int (cells r ''Employee Age'') = Inr (age c)
           \<and> amin \<le> age c \<and> age c \<le> amax
           \<and> name c = cells r ''Employee Name''
           \<and> roles c = cells r ''Employee Roles & Responsibilities''
           \<and> skills c = sorted_list_of_fset (skill_set r)
           \<and> age_score (age c) amin amax = Inr 1
           \<and> score c = ROLE_WEIGHT * sim + SKILL_WEIGHT * ratio + AGE_WEIGHT * 1"
  using assms
  by (auto simp: score_row_def age_score_in_range split: sum.splits if_splits)

lemma collect_mem:
  "collect d kw amin amax ps = Inr cs \<Longrightarrow> c \<in> set cs
     \<Longrightarrow> \<exists>p \<in> set ps. score_row d kw amin amax p = Inr (Some c)"
proof (induction ps arbitrary: cs)
  case Nil
  then show ?case by simp
next
  case (Cons p ps)
  then show ?case
    by (fastforce split: sum.splits option.splits)
qed

lemma collect_length:
  "collect d kw amin amax ps = Inr cs \<Longrightarrow> length cs \<le> length ps"
proof (induction ps arbitrary: cs)
  case Nil
  then show ?case by simp
next
  case (Cons p ps)
  then show ?case
    by (fastforce split: sum.splits option.splits)
qed

lemma length_faiss_search: "length (faiss_search vecs q n) = n"
  by (simp add: faiss_search_def Let_def)

lemma retrieve_length: "retrieve self query = Inr pool \<Longrightarrow> length pool = TOP_K_RAW"
  by (auto simp: retrieve_def length_faiss_search split: sum.splits list.splits if_splits)

lemma search_InrD:
  assumes "search self query req amin amax top_k rj = Inr res"
  shows "\<exists>pool cands. retrieve self query = Inr pool
           \<and> collect (df self) (required_keywords_of req) amin amax pool = Inr cands
           \<and> res = py_slice_to top_k (sort_key (\<lambda>c. - score c) cands)"
  using assms by (auto simp: search_def Let_def split: sum.splits)

lemma set_py_slice_to: "set (py_slice_to k xs) \<subseteq> set xs"
  by (auto simp: py_slice_to_def dest: in_set_takeD)

lemma length_py_slice_to: "length (py_slice_to k xs) \<le> length xs"
  by (simp add: py_slice_to_def)

lemma length_py_slice_to_nonneg: "0 \<le> k \<Longrightarrow> length (py_slice_to k xs) \<le> nat k"
  by (simp add: py_slice_to_def)

lemma prefix_py_slice_to: "prefix (py_slice_to k xs) xs"
  by (simp add: py_slice_to_def take_is_prefix)

lemma search_mem:
  assumes "search self query req amin amax top_k rj = Inr res" and "c \<in> set res"
  shows "\<exists>pool idx sim. retrieve self query = Inr pool \<and> (idx, sim) \<in> set pool
           \<and> score_row (df self) (required_keywords_of req) amin amax (idx, sim) = Inr (Some c)"
proof -
  from search_InrD [OF assms(1)] obtain pool cands where
    p: "retrieve self query = Inr pool"
    and cl: "collect (df self) (required_keywords_of req) amin amax pool = Inr cands"
    and r: "res = py_slice_to top_k (sort_key (\<lambda>c. - score c) cands)" by blast
  from assms(2) r have "c \<in> set cands"
    using set_py_slice_to [of top_k "sort_key (\<lambda>c. - score c) cands"] by auto
  from collect_mem [OF cl this] p show ?thesis by fastforce
qed

lemma collect_eq_map_filter:
  "collect d kw amin amax ps = Inr cs \<Longrightarrow> cs = List.map_filter (kept d kw amin amax) ps"
proof (induction ps arbitrary: cs)
  case Nil
  then show ?case by (simp add: map_filter_simps)
next
  case (Cons p ps)
  then show ?case
    by (auto simp: map_filter_simps kept_def split: sum.splits option.splits)
qed

lemma sorted_desc_sort_key:
  "sorted_wrt (\<lambda>a b. score b \<le> score a) (sort_key (\<lambda>c. - score c) cs)"
proof -
  have "sorted (map (\<lambda>c. - score c) (sort_key (\<lambda>c. - score c) cs))"
    by (rule sorted_sort_key)
  then show ?thesis by (simp add: sorted_map)
qed

lemma stable_desc_sort_key:
  "filter (\<lambda>c. score c = s) (sort_key (\<lambda>c. - score c) cs) = filter (\<lambda>c. score c = s) cs"
proof -
  have eq: "(\<lambda>c. score c = s) = (\<lambda>c. - score c = - s)" by auto
  show ?thesis unfolding eq by (rule sort_key_stable)
qed

lemma score_row_keywords_subset:
  "score_row d kw amin amax p = Inr (Some c) \<Longrightarrow> kw |\<subseteq>| fset_of_list (skills c)"
  by (cases p) (auto simp: score_row_def Let_def split: sum.splits if_splits)

lemma search_keywords_subset:
  assumes "search self query req amin amax top_k rj = Inr res" and "c \<in> set res"
  shows "required_keywords_of req |\<subseteq>| fset_of_list (skills c)"
proof -
  from search_mem [OF assms] obtain p where
    "score_row (df self) (required_keywords_of req) amin amax p = Inr (Some c)"
    by blast
  then show ?thesis by (rule score_row_keywords_subset)
qed

lemma load_and_prepare_cases:
  "load_and_prepare sheet =
     (if required_cols |\<subseteq>| fset_of_list (columns sheet)
      then Inr (map (\<lambda>r. \<lparr>cells = r,
                            skill_set = derive_skill_set (fillna [] (r ''Employee Skills''))\<rparr>)
                    (rows sheet))
      else Inl (MissingColumns (required_cols |-| fset_of_list (columns sheet))))"
  by (auto simp: load_and_prepare_def Let_def)

lemma missing_iff:
  "(\<exists>c. c |\<in>| required_cols \<and> c \<notin> set cols)
     \<longleftrightarrow> \<not> required_cols |\<subseteq>| fset_of_list cols"
  by (auto simp: fset_of_list.rep_eq)

lemma skills_match_ratio_empty: "skills_match_ratio cs {||} = Inr 1"
  by (simp add: skills_match_ratio_def)

lemma score_row_no_keywords_None:
  assumes "score_row d {||} age_min age_max (idx, sim) = Inr None"
  shows "idx = - 1 \<or> (\<exists>r a. iloc d idx = Inr r \<and> py_int (cells r ''Employee Age'') = Inr a
                         \<and> \<not> (age_min \<le> a \<and> a \<le> age_max))"
  using assms
  by (auto simp: score_row_def skills_match_ratio_empty Let_def split: sum.splits if_splits)

section \<open>The example query, step by step\<close>

lemma ex_skills0: "derive_skill_set (CStr ''Python'') = {|''python''|}"
  by code_simp

lemma ex_skills1:
  "derive_skill_set (CStr ''python, SQL,dbt, snowflake ,java,go,'')
     = {|''python'', ''sql'', ''dbt'', ''snowflake'', ''java'', ''go''|}"
  by code_simp

lemma ex_load: "load_and_prepare ex_sheet = Inr ex_rows"
  by (simp add: load_and_prepare_def ex_sheet_def ex_rows_def required_cols_def fillna_def
      ex_skills0 ex_skills1 ex_cells0_def ex_cells1_def mk_cells_def)

lemma ex_init: "init ex_model ex_sheet = Inr ex_engine"
  by (simp add: init_def ex_load ex_engine_def ex_model_def ex_vec_def ex_rows_def
      ex_cells0_def ex_cells1_def mk_cells_def)

lemma ex_faiss:
  "faiss_search [[1 / 2, 1 / 2, 1 / 2, 1 / 2], [1, 0, 0, 0]] [1, 0, 0, 0] TOP_K_RAW = ex_pool"
  by (simp add: faiss_search_def inner_product_def TOP_K_RAW_def upt_rec ex_pool_def)

lemma ex_retrieve: "retrieve ex_engine ''analytics'' = Inr ex_pool"
  by (simp add: retrieve_def ex_engine_def ex_model_def ex_vec_def ex_faiss)

lemma ex_keywords: "required_keywords_of (Some ['' Python '', ''  '']) = {|''python''|}"
  by code_simp

lemma ex_fmt: "fmt_2f 1 = ''1.00''" "fmt_2f (1 / 2) = ''0.50''"
  by code_simp+

lemma ex_sorted0: "sorted_list_of_fset {|''python''|} = [''python'']"
  by code_simp

lemma ex_sorted1:
  "sorted_list_of_fset {|''python'', ''sql'', ''dbt'', ''snowflake'', ''java'', ''go''|}
     = [''dbt'', ''go'', ''java'', ''python'', ''snowflake'', ''sql'']"
  by code_simp

lemma ex_fcard0: "fcard {|''python''|} = 1"
  by code_simp

lemma ex_ratio0: "skills_match_ratio {|''python''|} {|''python''|} = Inr 1"
  by (simp add: skills_match_ratio_def py_truediv_def ex_fcard0)

lemma ex_fcard1: "fcard {|''python'', ''sql'', ''dbt'', ''snowflake'', ''java'', ''go''|} = 6"
  by code_simp

lemma ex_ratio1:
  "skills_match_ratio {|''python'', ''sql'', ''dbt'', ''snowflake'', ''java'', ''go''|} {|''python''|}
     = Inr (1 / 6)"
  by (simp add: skills_match_ratio_def py_truediv_def ex_fcard1 ex_fcard0)

lemma ex_score_row1:
  "score_row ex_rows {|''python''|} 18 65 (1, 1) = Inr (Some ex_bob)"
  by (simp add: score_row_def iloc_def ex_rows_def ex_ratio1 ex_cells1_def mk_cells_def
      age_score_in_range ROLE_WEIGHT_def SKILL_WEIGHT_def AGE_WEIGHT_def ex_fmt ex_sorted1 ex_bob_def)

lemma ex_score_row0:
  "score_row ex_rows {|''python''|} 18 65 (0, 1 / 2) = Inr (Some ex_alice)"
  by (simp add: score_row_def iloc_def ex_rows_def ex_ratio0 ex_cells0_def mk_cells_def
      age_score_in_range ROLE_WEIGHT_def SKILL_WEIGHT_def AGE_WEIGHT_def ex_fmt ex_sorted0 ex_alice_def)

lemma score_row_pad: "score_row d kw amin amax (- 1, s) = Inr None"
  by (simp add: score_row_def)

lemma collect_pad: "collect d kw amin amax (replicate n (- 1, s)) = Inr []"
  by (induction n) (simp_all add: score_row_pad)

lemma collect_Cons_Some:
  "score_row d kw amin amax p = Inr (Some c) \<Longrightarrow> collect d kw amin amax ps = Inr cs
     \<Longrightarrow> collect d kw amin amax (p # ps) = Inr (c # cs)"
  by simp

lemma ex_collect: "collect ex_rows {|''python''|} 18 65 ex_pool = Inr [ex_bob, ex_alice]"
  unfolding ex_pool_def append.simps
  by (intro collect_Cons_Some ex_score_row1 ex_score_row0 collect_pad)

lemma ex_df: "df ex_engine = ex_rows"
  by (simp add: ex_engine_def)

lemma ex_scores: "score ex_bob = 3 / 4" "score ex_alice = 3 / 4"
  by (simp_all add: ex_bob_def ex_alice_def)

lemma ex_search:
  "search ex_engine ''analytics'' (Some ['' Python '', ''  '']) 18 65 5 False = Inr [ex_bob, ex_alice]"
  by (simp add: search_def ex_retrieve ex_keywords ex_df ex_collect py_slice_to_def ex_scores)

lemma ex_search_cut:
  "search ex_engine ''analytics'' (Some ['' Python '', ''  '']) 18 65 1 False = Inr [ex_bob]"
  by (simp add: search_def ex_retrieve ex_keywords ex_df ex_collect py_slice_to_def ex_scores)

lemma ex_keywords_none: "required_keywords_of None = {||}"
  by (simp add: required_keywords_of_def normalise_keywords_def)

lemma ex_score_row1_open: "score_row ex_rows {||} 18 65 (1, 1) = Inr (Some ex_bob_open)"
  by (simp add: score_row_def iloc_def ex_rows_def skills_match_ratio_empty ex_cells1_def
      mk_cells_def age_score_in_range ROLE_WEIGHT_def SKILL_WEIGHT_def AGE_WEIGHT_def ex_fmt
      ex_sorted1 ex_bob_open_def)

lemma ex_score_row0_open: "score_row ex_rows {||} 18 65 (0, 1 / 2) = Inr (Some ex_alice_open)"
  by (simp add: score_row_def iloc_def ex_rows_def skills_match_ratio_empty ex_cells0_def
      mk_cells_def age_score_in_range ROLE_WEIGHT_def SKILL_WEIGHT_def AGE_WEIGHT_def ex_fmt
      ex_sorted0 ex_alice_open_def)

lemma ex_collect_open: "collect ex_rows {||} 18 65 ex_pool = Inr [ex_bob_open, ex_alice_open]"
  unfolding ex_pool_def append.simps
  by (intro collect_Cons_Some ex_score_row1_open ex_score_row0_open collect_pad)

lemma ex_scores_open: "score ex_bob_open = 1" "score ex_alice_open = 3 / 4"
  by (simp_all add: ex_bob_open_def ex_alice_open_def)

lemma ex_search_open:
  "search ex_engine ''analytics'' None 18 65 5 False = Inr [ex_bob_open, ex_alice_open]"
  by (simp add: search_def ex_retrieve ex_keywords_none ex_df ex_collect_open py_slice_to_def
      ex_scores_open)

lemma ex_iloc0: "iloc ex_rows 0 = Inr (ex_rows ! 0)"
  by (simp add: iloc_def ex_rows_def)

lemma ex_age0: "py_int (cells (ex_rows ! 0) ''Employee Age'') = Inr 30"
  by (simp add: ex_rows_def ex_cells0_def mk_cells_def)

lemma ex_score_row0_old: "score_row ex_rows {||} 40 65 (0, 1 / 2) = Inr None"
proof (rule score_row_out_of_range(2))
  show "iloc ex_rows 0 = Inr (ex_rows ! 0)" by (rule ex_iloc0)
  show "py_int (cells (ex_rows ! 0) ''Employee Age'') = Inr 30" by (rule ex_age0)
  show "\<not> (40 \<le> (30::int) \<and> (30::int) \<le> 65)" by simp
  show "\<bar>30::int\<bar> < FLOAT_OVERFLOW" using FLOAT_OVERFLOW_large by simp
  show "\<bar>40 + 65 :: int\<bar> < FLOAT_OVERFLOW" using FLOAT_OVERFLOW_large by simp
qed








lemma ex_score_row0_overflow:
  "score_row ex_rows {||} FLOAT_OVERFLOW FLOAT_OVERFLOW (0, 1 / 2) = Inl OverflowError"
proof -
  have lt: "\<not> (FLOAT_OVERFLOW \<le> 30 \<and> 30 \<le> FLOAT_OVERFLOW)"
    using FLOAT_OVERFLOW_large by simp
  have "FLOAT_OVERFLOW \<le> \<bar>FLOAT_OVERFLOW + FLOAT_OVERFLOW\<bar>"
    using FLOAT_OVERFLOW_large by simp
  with lt have "age_score 30 FLOAT_OVERFLOW FLOAT_OVERFLOW = Inl OverflowError"
    by (rule age_score_overflow)
  then show ?thesis
    by (simp add: score_row_def ex_iloc0 ex_age0 skills_match_ratio_empty)
qed

section \<open>Claims\<close>

text \<open>
  C1. Skill hard filter: when the required keywords (the entries of the \<open>skills\<close>
  argument that are not blank, trimmed and lowercased) are not empty, they are a subset
  of the skills of every returned candidate; a retrieved row whose skill set does not
  contain them yields no candidate, and neither its ratio nor its age is evaluated.
\<close>

theorem skill_hard_filter:
  "(search self query req_skills age_min age_max top_k return_json = Inr res \<and> c \<in> set res
      \<and> required_keywords_of req_skills \<noteq> {||}
      \<longrightarrow> required_keywords_of req_skills |\<subseteq>| fset_of_list (skills c))
   \<and> (search self query req_skills age_min age_max top_k return_json = Inr res \<and> c \<in> set res
      \<and> req_skills = Some l \<and> s \<in> set l \<and> py_strip s \<noteq> []
      \<longrightarrow> py_lower (py_strip s) \<in> set (skills c))
   \<and> (kw \<noteq> {||} \<and> iloc d idx = Inr r \<and> \<not> kw |\<subseteq>| skill_set r
      \<longrightarrow> score_row d kw age_min age_max (idx, sim) = Inr None)"
proof (intro conjI impI)
  assume h: "search self query req_skills age_min age_max top_k return_json = Inr res \<and> c \<in> set res
      \<and> required_keywords_of req_skills \<noteq> {||}"
  then have "search self query req_skills age_min age_max top_k return_json = Inr res"
    and "c \<in> set res" by (rule conjunct1, rule conjunct2 [THEN conjunct1])
  then show "required_keywords_of req_skills |\<subseteq>| fset_of_list (skills c)"
    by (rule search_keywords_subset)
next
  assume h: "search self query req_skills age_min age_max top_k return_json = Inr res \<and> c \<in> set res
      \<and> req_skills = Some l \<and> s \<in> set l \<and> py_strip s \<noteq> []"
  then have mem: "py_lower (py_strip s) |\<in>| required_keywords_of req_skills"
    by (auto simp: required_keywords_of_def normalise_keywords_def fset_of_list.rep_eq)
  from h have "search self query req_skills age_min age_max top_k return_json = Inr res"
    and "c \<in> set res" by (rule conjunct1, rule conjunct2 [THEN conjunct1])
  then have "required_keywords_of req_skills |\<subseteq>| fset_of_list (skills c)"
    by (rule search_keywords_subset)
  with mem have "py_lower (py_strip s) |\<in>| fset_of_list (skills c)"
    by (rule fsubsetD [rotated])
  then show "py_lower (py_strip s) \<in> set (skills c)"
    by (simp add: fset_of_list.rep_eq)
next
  assume "kw \<noteq> {||} \<and> iloc d idx = Inr r \<and> \<not> kw |\<subseteq>| skill_set r"
  then show "score_row d kw age_min age_max (idx, sim) = Inr None"
    by (simp add: score_row_def)
qed

theorem skill_hard_filter_witness:
  "search ex_engine ''analytics'' (Some ['' Python '', ''  '']) 18 65 5 False = Inr [ex_bob, ex_alice]
   \<and> ex_bob \<in> set [ex_bob, ex_alice]
   \<and> required_keywords_of (Some ['' Python '', ''  '']) = {|''python''|}
   \<and> required_keywords_of (Some ['' Python '', ''  '']) |\<subseteq>| fset_of_list (skills ex_bob)
   \<and> '' Python '' \<in> set ['' Python '', ''  ''] \<and> py_strip '' Python '' \<noteq> []
   \<and> py_lower (py_strip '' Python '') \<in> set (skills ex_bob)
   \<and> {|''sql''|} \<noteq> {||} \<and> iloc ex_rows 0 = Inr (ex_rows ! 0)
   \<and> \<not> {|''sql''|} |\<subseteq>| skill_set (ex_rows ! 0)
   \<and> score_row ex_rows {|''sql''|} 18 65 (0, 1 / 2) = Inr None"
proof -
  have s: "py_strip '' Python '' = ''Python''" by code_simp
  have i: "iloc ex_rows 0 = Inr (ex_rows ! 0)" by (simp add: iloc_def ex_rows_def)
  have n: "\<not> {|''sql''|} |\<subseteq>| skill_set (ex_rows ! 0)" by (simp add: ex_rows_def)
  have m: "ex_bob \<in> set [ex_bob, ex_alice]" by simp
  have l: "'' Python '' \<in> set ['' Python '', ''  '']" by simp
  have e: "py_strip '' Python '' \<noteq> []" by (simp add: s)
  have k: "required_keywords_of (Some ['' Python '', ''  '']) \<noteq> {||}" by (simp add: ex_keywords)
  have q: "{|''sql''|} \<noteq> {||}" by simp
  note t = skill_hard_filter [of ex_engine "''analytics''" "Some ['' Python '', ''  '']" 18 65 5
        False "[ex_bob, ex_alice]" ex_bob "['' Python '', ''  '']" "'' Python ''" "{|''sql''|}"
        ex_rows 0 "ex_rows ! 0" "1 / 2"]
  have a: "required_keywords_of (Some ['' Python '', ''  '']) |\<subseteq>| fset_of_list (skills ex_bob)"
    by (rule t [THEN conjunct1, THEN mp]) (intro conjI ex_search m k)
  have b: "py_lower (py_strip '' Python '') \<in> set (skills ex_bob)"
    by (rule t [THEN conjunct2, THEN conjunct1, THEN mp]) (intro conjI ex_search m refl l e)
  have c: "score_row ex_rows {|''sql''|} 18 65 (0, 1 / 2) = Inr None"
    by (rule t [THEN conjunct2, THEN conjunct2, THEN mp]) (intro conjI q i n)
  show ?thesis by (intro conjI ex_search m ex_keywords a l e b q i n c)
qed


text \<open>
  What the age filter guarantees on every input: each returned candidate has an age
  between \<open>age_min\<close> and \<open>age_max\<close> inclusive, and a retrieved row whose age is outside
  the range never yields a candidate. It is dropped whenever the age and the sum of the
  bounds convert to a float; otherwise the loop ends with \<^verbatim>\<open>OverflowError\<close>.
\<close>

theorem age_hard_filter:
  "(search self query req_skills age_min age_max top_k return_json = Inr res \<and> c \<in> set res
      \<longrightarrow> age_min \<le> age c \<and> age c \<le> age_max)
   \<and> (iloc d idx = Inr r \<and> py_int (cells r ''Employee Age'') = Inr a
        \<and> \<not> (age_min \<le> a \<and> a \<le> age_max)
      \<longrightarrow> (score_row d kw age_min age_max (idx, sim) = Inr None
            \<or> score_row d kw age_min age_max (idx, sim) = Inl OverflowError)
          \<and> (\<bar>a\<bar> < FLOAT_OVERFLOW \<and> \<bar>age_min + age_max\<bar> < FLOAT_OVERFLOW
               \<longrightarrow> score_row d kw age_min age_max (idx, sim) = Inr None))"
proof (intro conjI impI)
  assume h: "search self query req_skills age_min age_max top_k return_json = Inr res \<and> c \<in> set res"
  then obtain pool idx' sim' where
    "score_row (df self) (required_keywords_of req_skills) age_min age_max (idx', sim') = Inr (Some c)"
    using search_mem by blast
  from score_row_SomeD [OF this] show "age_min \<le> age c" and "age c \<le> age_max" by blast+
next
  assume h: "iloc d idx = Inr r \<and> py_int (cells r ''Employee Age'') = Inr a
        \<and> \<not> (age_min \<le> a \<and> a \<le> age_max)"
  then show "score_row d kw age_min age_max (idx, sim) = Inr None
            \<or> score_row d kw age_min age_max (idx, sim) = Inl OverflowError"
    using score_row_out_of_range(1) [of d idx r a age_min age_max kw sim] by simp
next
  assume h: "iloc d idx = Inr r \<and> py_int (cells r ''Employee Age'') = Inr a
        \<and> \<not> (age_min \<le> a \<and> a \<le> age_max)"
    and f: "\<bar>a\<bar> < FLOAT_OVERFLOW \<and> \<bar>age_min + age_max\<bar> < FLOAT_OVERFLOW"
  then show "score_row d kw age_min age_max (idx, sim) = Inr None"
    using score_row_out_of_range(2) [of d idx r a age_min age_max kw sim] by simp
qed

theorem age_hard_filter_witness:
  "search ex_engine ''analytics'' (Some ['' Python '', ''  '']) 18 65 5 False = Inr [ex_bob, ex_alice]
   \<and> ex_alice \<in> set [ex_bob, ex_alice] \<and> 18 \<le> age ex_alice \<and> age ex_alice \<le> 65
   \<and> iloc ex_rows 0 = Inr (ex_rows ! 0)
   \<and> py_int (cells (ex_rows ! 0) ''Employee Age'') = Inr 30
   \<and> \<not> (40 \<le> (30::int) \<and> (30::int) \<le> 65)
   \<and> \<bar>30::int\<bar> < FLOAT_OVERFLOW \<and> \<bar>40 + 65 :: int\<bar> < FLOAT_OVERFLOW
   \<and> score_row ex_rows {||} 40 65 (0, 1 / 2) = Inr None
   \<and> score_row ex_rows {||} FLOAT_OVERFLOW FLOAT_OVERFLOW (0, 1 / 2) = Inl OverflowError"
proof -
  note t = age_hard_filter [of ex_engine "''analytics''" "Some ['' Python '', ''  '']" 18 65 5 False
      "[ex_bob, ex_alice]" ex_alice]
  note u = age_hard_filter [of _ _ _ 40 65 _ _ _ _ ex_rows 0 "ex_rows ! 0" 30 "{||}" "1 / 2"]
  have m: "ex_alice \<in> set [ex_bob, ex_alice]" by simp
  have n: "\<not> (40 \<le> (30::int) \<and> (30::int) \<le> 65)" by simp
  have f1: "\<bar>30::int\<bar> < FLOAT_OVERFLOW" using FLOAT_OVERFLOW_large by simp
  have f2: "\<bar>40 + 65 :: int\<bar> < FLOAT_OVERFLOW" using FLOAT_OVERFLOW_large by simp
  have a: "18 \<le> age ex_alice \<and> age ex_alice \<le> 65"
    by (rule t [THEN conjunct1, THEN mp]) (intro conjI ex_search m)
  have b: "score_row ex_rows {||} 40 65 (0, 1 / 2) = Inr None"
    by (rule u [THEN conjunct2, THEN mp, THEN conjunct2, THEN mp])
       (intro conjI ex_iloc0 ex_age0 n, intro conjI f1 f2)
  show ?thesis
    by (intro conjI ex_search m a [THEN conjunct1] a [THEN conjunct2] ex_iloc0 ex_age0 n f1 f2 b
        ex_score_row0_overflow)
qed

text \<open>
  C3. Score formula: the weights are the constants 0.5, 0.3 and 0.2, and every returned
  candidate comes from a retrieved pair (position, similarity) whose row has a skill
  ratio such that the score is 0.5 * similarity + 0.3 * ratio + 0.2 * age score. The
  age score of a returned candidate is 1 (the decay branch is not taken), so its score
  is 0.5 * similarity + 0.3 * ratio + 0.2.
\<close>

theorem score_formula:
  "ROLE_WEIGHT = 0.5 \<and> SKILL_WEIGHT = 0.3 \<and> AGE_WEIGHT = 0.2
   \<and> (search self query req_skills age_min age_max top_k return_json = Inr res \<and> c \<in> set res
      \<longrightarrow> (\<exists>pool idx sim r ratio age_s.
             retrieve self query = Inr pool \<and> (idx, sim) \<in> set pool
           \<and> iloc (df self) idx = Inr r
           \<and> skills_match_ratio (skill_set r) (required_keywords_of req_skills) = Inr ratio
           \<and> age_score (age c) age_min age_max = Inr age_s \<and> age_s = 1
           \<and> score c = 0.5 * sim + 0.3 * ratio + 0.2 * age_s
           \<and> score c = 0.5 * sim + 0.3 * ratio + 0.2))"
proof (intro conjI impI)
  assume h: "search self query req_skills age_min age_max top_k return_json = Inr res \<and> c \<in> set res"
  then obtain pool idx sim where
    p: "retrieve self query = Inr pool" "(idx, sim) \<in> set pool"
    and sr: "score_row (df self) (required_keywords_of req_skills) age_min age_max (idx, sim)
               = Inr (Some c)"
    using search_mem by blast
  from score_row_SomeD [OF sr] obtain r ratio where
    r: "iloc (df self) idx = Inr r"
       "skills_match_ratio (skill_set r) (required_keywords_of req_skills) = Inr ratio"
    and one: "age_score (age c) age_min age_max = Inr 1"
    and sc: "score c = ROLE_WEIGHT * sim + SKILL_WEIGHT * ratio + AGE_WEIGHT * 1"
    by blast
  from sc have f: "score c = 0.5 * sim + 0.3 * ratio + 0.2 * 1"
    by (simp add: ROLE_WEIGHT_def SKILL_WEIGHT_def AGE_WEIGHT_def)
  then have g: "score c = 0.5 * sim + 0.3 * ratio + 0.2" by simp
  from p r one f g show "\<exists>pool idx sim r ratio age_s.
             retrieve self query = Inr pool \<and> (idx, sim) \<in> set pool
           \<and> iloc (df self) idx = Inr r
           \<and> skills_match_ratio (skill_set r) (required_keywords_of req_skills) = Inr ratio
           \<and> age_score (age c) age_min age_max = Inr age_s \<and> age_s = 1
           \<and> score c = 0.5 * sim + 0.3 * ratio + 0.2 * age_s
           \<and> score c = 0.5 * sim + 0.3 * ratio + 0.2" by blast
qed (simp_all add: ROLE_WEIGHT_def SKILL_WEIGHT_def AGE_WEIGHT_def)

theorem score_formula_witness:
  "search ex_engine ''analytics'' (Some ['' Python '', ''  '']) 18 65 5 False = Inr [ex_bob, ex_alice]
   \<and> ex_bob \<in> set [ex_bob, ex_alice]
   \<and> age_score (age ex_bob) 18 65 = Inr 1
   \<and> (\<exists>sim ratio. score ex_bob = 0.5 * sim + 0.3 * ratio + 0.2)
   \<and> score ex_bob = 0.5 * 1 + 0.3 * (1 / 6) + 0.2"
proof -
  have m: "ex_bob \<in> set [ex_bob, ex_alice]" by simp
  have "\<exists>pool idx sim r ratio age_s.
             retrieve ex_engine ''analytics'' = Inr pool \<and> (idx, sim) \<in> set pool
           \<and> iloc (df ex_engine) idx = Inr r
           \<and> skills_match_ratio (skill_set r) (required_keywords_of (Some ['' Python '', ''  '']))
               = Inr ratio
           \<and> age_score (age ex_bob) 18 65 = Inr age_s \<and> age_s = 1
           \<and> score ex_bob = 0.5 * sim + 0.3 * ratio + 0.2 * age_s
           \<and> score ex_bob = 0.5 * sim + 0.3 * ratio + 0.2"
    by (rule score_formula [of ex_engine "''analytics''" "Some ['' Python '', ''  '']" 18 65 5
          False "[ex_bob, ex_alice]" ex_bob, THEN conjunct2, THEN conjunct2, THEN conjunct2,
          THEN mp]) (intro conjI ex_search m)
  then obtain sim ratio age_s where
    a: "age_score (age ex_bob) 18 65 = Inr age_s" and o: "age_s = 1"
    and f: "score ex_bob = 0.5 * sim + 0.3 * ratio + 0.2"
    by (elim exE conjE)
  from a o have a1: "age_score (age ex_bob) 18 65 = Inr 1" by simp
  from f have e: "\<exists>sim ratio. score ex_bob = 0.5 * sim + 0.3 * ratio + 0.2"
    by (intro exI)
  have v: "score ex_bob = 0.5 * 1 + 0.3 * (1 / 6) + 0.2" by (simp add: ex_scores)
  show ?thesis by (intro conjI ex_search m a1 e v)
qed

text \<open>
  C4. Result ordering: the result is sorted by score, highest first. Candidates of
  equal score keep the order in which the retrieval pool lists them, since the sort is
  stable: for every score, the returned candidates with that score are a prefix of the
  kept candidates with that score, read in pool order. The position of the row in the
  sheet does not break ties.
\<close>

theorem result_ordering:
  assumes "search self query req_skills age_min age_max top_k return_json = Inr res"
  shows "sorted_wrt (\<lambda>a b. score b \<le> score a) res
         \<and> (\<exists>pool cands. retrieve self query = Inr pool
              \<and> cands = List.map_filter
                          (kept (df self) (required_keywords_of req_skills) age_min age_max) pool
              \<and> (\<forall>s. prefix (filter (\<lambda>c. score c = s) res) (filter (\<lambda>c. score c = s) cands)))"
proof -
  from search_InrD [OF assms] obtain pool cands where
    p: "retrieve self query = Inr pool"
    and cl: "collect (df self) (required_keywords_of req_skills) age_min age_max pool = Inr cands"
    and r: "res = py_slice_to top_k (sort_key (\<lambda>c. - score c) cands)" by blast
  have srt: "sorted_wrt (\<lambda>a b. score b \<le> score a) res"
    unfolding r py_slice_to_def using sorted_desc_sort_key [of cands] by simp
  have pre: "prefix (filter (\<lambda>c. score c = s) res) (filter (\<lambda>c. score c = s) cands)" for s
  proof -
    have "prefix (filter (\<lambda>c. score c = s) res)
            (filter (\<lambda>c. score c = s) (sort_key (\<lambda>c. - score c) cands))"
      unfolding r by (rule filter_mono_prefix [OF prefix_py_slice_to])
    then show ?thesis by (simp only: stable_desc_sort_key)
  qed
  from collect_eq_map_filter [OF cl] p srt pre show ?thesis by blast
qed

theorem result_ordering_witness:
  "search ex_engine ''analytics'' (Some ['' Python '', ''  '']) 18 65 5 False = Inr [ex_bob, ex_alice]
   \<and> sorted_wrt (\<lambda>a b. score b \<le> score a) [ex_bob, ex_alice]
   \<and> retrieve ex_engine ''analytics'' = Inr ex_pool
   \<and> [ex_bob, ex_alice] = List.map_filter (kept ex_rows {|''python''|} 18 65) ex_pool"
proof -
  note t = result_ordering [OF ex_search]
  from t have a: "sorted_wrt (\<lambda>a b. score b \<le> score a) [ex_bob, ex_alice]"
    by (rule conjunct1)
  have b: "[ex_bob, ex_alice] = List.map_filter (kept ex_rows {|''python''|} 18 65) ex_pool"
    by (rule collect_eq_map_filter [OF ex_collect])
  show ?thesis by (intro conjI ex_search a ex_retrieve b)
qed

text \<open>
  The example query returns Bob, the employee of row 1, before Alice, the employee of
  row 0, and both have the score \<open>3/4\<close>: the tie is not broken by the lower row.
\<close>

theorem tie_order_counterexample:
  "init ex_model ex_sheet = Inr ex_engine
   \<and> search ex_engine ''analytics'' (Some ['' Python '', ''  '']) 18 65 5 False
       = Inr [ex_bob, ex_alice]
   \<and> score ex_bob = score ex_alice
   \<and> cells (df ex_engine ! 0) ''Employee Name'' = name ex_alice
   \<and> cells (df ex_engine ! 1) ''Employee Name'' = name ex_bob
   \<and> name ex_bob \<noteq> name ex_alice"
proof -
  have a: "score ex_bob = score ex_alice" by (simp add: ex_scores)
  have b: "cells (df ex_engine ! 0) ''Employee Name'' = name ex_alice"
    by (simp add: ex_df ex_rows_def ex_cells0_def mk_cells_def ex_alice_def)
  have c: "cells (df ex_engine ! 1) ''Employee Name'' = name ex_bob"
    by (simp add: ex_df ex_rows_def ex_cells1_def mk_cells_def ex_bob_def)
  have d: "name ex_bob \<noteq> name ex_alice" by (simp add: ex_bob_def ex_alice_def)
  show ?thesis by (intro conjI ex_init ex_search a b c d)
qed

text \<open>
  C5. Cap: for a positive \<open>top_k\<close> the result has at most \<open>top_k\<close> entries and at most
  \<open>TOP_K_RAW\<close> = 20 entries, whatever the number of rows.
\<close>

theorem result_cap:
  assumes "0 < top_k"
    and "search self query req_skills age_min age_max top_k return_json = Inr res"
  shows "int (length res) \<le> top_k \<and> length res \<le> TOP_K_RAW \<and> TOP_K_RAW = 20"
proof -
  from search_InrD [OF assms(2)] obtain pool cands where
    p: "retrieve self query = Inr pool"
    and cl: "collect (df self) (required_keywords_of req_skills) age_min age_max pool = Inr cands"
    and r: "res = py_slice_to top_k (sort_key (\<lambda>c. - score c) cands)" by blast
  from assms(1) r have a: "int (length res) \<le> top_k"
    using length_py_slice_to_nonneg [of top_k "sort_key (\<lambda>c. - score c) cands"] by simp
  have "length res \<le> length cands"
    using r length_py_slice_to [of top_k "sort_key (\<lambda>c. - score c) cands"] by simp
  also have "\<dots> \<le> length pool" by (rule collect_length [OF cl])
  also have "\<dots> = TOP_K_RAW" by (rule retrieve_length [OF p])
  finally have "length res \<le> TOP_K_RAW" .
  with a show ?thesis by (simp add: TOP_K_RAW_def)
qed

theorem result_cap_witness:
  "(0::int) < 1
   \<and> search ex_engine ''analytics'' (Some ['' Python '', ''  '']) 18 65 1 False = Inr [ex_bob]
   \<and> int (length [ex_bob]) \<le> 1 \<and> length [ex_bob] \<le> TOP_K_RAW"
  using result_cap [of 1 ex_engine "''analytics''" "Some ['' Python '', ''  '']" 18 65 False "[ex_bob]"]
  by (simp add: ex_search_cut)

text \<open>
  C7. Schema error: loading fails if and only if one of the four required columns is
  absent from the sheet; the error then carries exactly the required columns that are
  absent (all of them), and the engine constructor fails with the same error before
  anything is encoded.
\<close>

theorem schema_error_complete:
  "(if \<exists>c. c |\<in>| required_cols \<and> c \<notin> set (columns sheet)
    then load_and_prepare sheet
           = Inl (MissingColumns (required_cols |-| fset_of_list (columns sheet)))
         \<and> init m sheet = Inl (MissingColumns (required_cols |-| fset_of_list (columns sheet)))
    else \<exists>d. load_and_prepare sheet = Inr d)
   \<and> (c |\<in>| required_cols |-| fset_of_list (columns sheet)
        \<longleftrightarrow> c |\<in>| required_cols \<and> c \<notin> set (columns sheet))
   \<and> required_cols = {|''Employee Name'', ''Employee Skills'', ''Employee Age'',
                         ''Employee Roles & Responsibilities''|}"
proof (intro conjI)
  show "if \<exists>c. c |\<in>| required_cols \<and> c \<notin> set (columns sheet)
    then load_and_prepare sheet
           = Inl (MissingColumns (required_cols |-| fset_of_list (columns sheet)))
         \<and> init m sheet = Inl (MissingColumns (required_cols |-| fset_of_list (columns sheet)))
    else \<exists>d. load_and_prepare sheet = Inr d"
    unfolding missing_iff by (simp add: load_and_prepare_cases init_def)
next
  show "c |\<in>| required_cols |-| fset_of_list (columns sheet)
        \<longleftrightarrow> c |\<in>| required_cols \<and> c \<notin> set (columns sheet)"
    by (simp add: fset_of_list.rep_eq)
next
  show "required_cols = {|''Employee Name'', ''Employee Skills'', ''Employee Age'',
                         ''Employee Roles & Responsibilities''|}"
    by (rule required_cols_def)
qed

theorem schema_error_complete_witness:
  "''Employee Age'' |\<in>| required_cols \<and> ''Employee Age'' \<notin> set (columns ex_bad_sheet)
   \<and> load_and_prepare ex_bad_sheet = Inl (MissingColumns {|''Employee Skills'', ''Employee Age''|})
   \<and> init ex_model ex_bad_sheet = Inl (MissingColumns {|''Employee Skills'', ''Employee Age''|})
   \<and> (\<exists>d. load_and_prepare ex_sheet = Inr d)"
proof -
  have a: "''Employee Age'' |\<in>| required_cols" by (simp add: required_cols_def)
  have b: "''Employee Age'' \<notin> set (columns ex_bad_sheet)" by (simp add: ex_bad_sheet_def)
  have d: "required_cols |-| fset_of_list (columns ex_bad_sheet)
             = {|''Employee Skills'', ''Employee Age''|}"
    by (auto simp: required_cols_def ex_bad_sheet_def)
  have "required_cols |\<subseteq>| fset_of_list (columns ex_sheet)"
    by (simp add: required_cols_def ex_sheet_def)
  then have g: "\<not> (\<exists>c. c |\<in>| required_cols \<and> c \<notin> set (columns ex_sheet))"
    unfolding missing_iff by simp
  from a b have ex: "\<exists>c. c |\<in>| required_cols \<and> c \<notin> set (columns ex_bad_sheet)"
    by (intro exI conjI)
  from ex schema_error_complete [of ex_bad_sheet ex_model, THEN conjunct1]
  have ef: "load_and_prepare ex_bad_sheet
             = Inl (MissingColumns (required_cols |-| fset_of_list (columns ex_bad_sheet)))
          \<and> init ex_model ex_bad_sheet
             = Inl (MissingColumns (required_cols |-| fset_of_list (columns ex_bad_sheet)))"
    by (simp only: if_True)
  from g schema_error_complete [of ex_sheet ex_model, THEN conjunct1]
  have h: "\<exists>d. load_and_prepare ex_sheet = Inr d"
    by (simp only: if_False)
  from ef have e: "load_and_prepare ex_bad_sheet
                     = Inl (MissingColumns {|''Employee Skills'', ''Employee Age''|})"
    and f: "init ex_model ex_bad_sheet
                     = Inl (MissingColumns {|''Employee Skills'', ''Employee Age''|})"
    unfolding d by (rule conjunct1, rule conjunct2)
  show ?thesis by (intro conjI a b e f h)
qed

text \<open>
  C8. Empty required keywords disable the skill filter: the ratio is 1; a retrieved
  pair that yields no candidate is then either padding or a row whose age is out of
  range, never a row dropped for its skills; and every returned candidate has the score
  of ratio 1. With keywords that are not empty and contained in the skill set, the
  ratio is the number of keywords divided by \<open>max (len skill_set) 1\<close>.
\<close>

theorem empty_skills_no_filter:
  "skills_match_ratio cs {||} = Inr 1
   \<and> (kw \<noteq> {||} \<and> kw |\<subseteq>| cs
      \<longrightarrow> skills_match_ratio cs kw = Inr (real (fcard kw) / real (max (fcard cs) 1)))
   \<and> (score_row d {||} age_min age_max (idx, sim) = Inr None
      \<longrightarrow> idx = - 1 \<or> (\<exists>r a. iloc d idx = Inr r \<and> py_int (cells r ''Employee Age'') = Inr a
                             \<and> \<not> (age_min \<le> a \<and> a \<le> age_max)))
   \<and> (required_keywords_of req_skills = {||}
        \<and> search self query req_skills age_min age_max top_k return_json = Inr res
        \<and> c \<in> set res
      \<longrightarrow> (\<exists>pool i s. retrieve self query = Inr pool \<and> (i, s) \<in> set pool
             \<and> score c = ROLE_WEIGHT * s + SKILL_WEIGHT * 1 + AGE_WEIGHT * 1))"
proof (intro conjI impI)
  show "skills_match_ratio cs {||} = Inr 1" by (rule skills_match_ratio_empty)
next
  assume "kw \<noteq> {||} \<and> kw |\<subseteq>| cs"
  then show "skills_match_ratio cs kw = Inr (real (fcard kw) / real (max (fcard cs) 1))"
    by (simp add: skills_match_ratio_def py_truediv_def)
next
  assume "score_row d {||} age_min age_max (idx, sim) = Inr None"
  then show "idx = - 1 \<or> (\<exists>r a. iloc d idx = Inr r \<and> py_int (cells r ''Employee Age'') = Inr a
                             \<and> \<not> (age_min \<le> a \<and> a \<le> age_max))"
    by (rule score_row_no_keywords_None)
next
  assume h: "required_keywords_of req_skills = {||}
        \<and> search self query req_skills age_min age_max top_k return_json = Inr res
        \<and> c \<in> set res"
  then obtain pool i s where
    p: "retrieve self query = Inr pool" "(i, s) \<in> set pool"
    and sr: "score_row (df self) {||} age_min age_max (i, s) = Inr (Some c)"
    using search_mem [of self query req_skills age_min age_max top_k return_json res c] by auto
  from score_row_SomeD [OF sr]
  have "score c = ROLE_WEIGHT * s + SKILL_WEIGHT * 1 + AGE_WEIGHT * 1"
    by (auto simp: skills_match_ratio_empty)
  with p show "\<exists>pool i s. retrieve self query = Inr pool \<and> (i, s) \<in> set pool
             \<and> score c = ROLE_WEIGHT * s + SKILL_WEIGHT * 1 + AGE_WEIGHT * 1" by blast
qed

theorem empty_skills_no_filter_witness:
  "skills_match_ratio {|''python''|} {||} = Inr 1
   \<and> {|''python''|} \<noteq> {||}
   \<and> {|''python''|} |\<subseteq>| {|''python'', ''sql'', ''dbt'', ''snowflake'', ''java'', ''go''|}
   \<and> skills_match_ratio {|''python'', ''sql'', ''dbt'', ''snowflake'', ''java'', ''go''|}
        {|''python''|} = Inr (1 / 6)
   \<and> score_row ex_rows {||} 40 65 (0, 1 / 2) = Inr None
   \<and> ((0::int) = - 1 \<or> (\<exists>r a. iloc ex_rows 0 = Inr r \<and> py_int (cells r ''Employee Age'') = Inr a
                              \<and> \<not> (40 \<le> a \<and> a \<le> 65)))
   \<and> required_keywords_of None = {||}
   \<and> search ex_engine ''analytics'' None 18 65 5 False = Inr [ex_bob_open, ex_alice_open]
   \<and> ex_alice_open \<in> set [ex_bob_open, ex_alice_open]
   \<and> (\<exists>s. score ex_alice_open = ROLE_WEIGHT * s + SKILL_WEIGHT * 1 + AGE_WEIGHT * 1)"
proof -
  note t18 = empty_skills_no_filter
      [of "{|''python'', ''sql'', ''dbt'', ''snowflake'', ''java'', ''go''|}"
        "{|''python''|}" ex_rows 18 65 0 "1 / 2" None ex_engine "''analytics''" 5 False
        "[ex_bob_open, ex_alice_open]" ex_alice_open]
  note t40 = empty_skills_no_filter
      [of "{|''python''|}" "{|''python''|}" ex_rows 40 65 0 "1 / 2" None ex_engine
        "''analytics''" 5 False "[ex_bob_open, ex_alice_open]" ex_alice_open]
  have a: "skills_match_ratio {|''python''|} {||} = Inr 1"
    by (rule t40 [THEN conjunct1])
  have b: "{|''python''|} \<noteq> {||}" by simp
  have c: "{|''python''|} |\<subseteq>| {|''python'', ''sql'', ''dbt'', ''snowflake'', ''java'', ''go''|}"
    by simp
  have m: "ex_alice_open \<in> set [ex_bob_open, ex_alice_open]" by simp
  have d0: "skills_match_ratio {|''python'', ''sql'', ''dbt'', ''snowflake'', ''java'', ''go''|}
        {|''python''|} = Inr (real (fcard {|''python''|})
           / real (max (fcard {|''python'', ''sql'', ''dbt'', ''snowflake'', ''java'', ''go''|}) 1))"
    by (rule t18 [THEN conjunct2, THEN conjunct1, THEN mp]) (intro conjI b c)
  have d: "skills_match_ratio {|''python'', ''sql'', ''dbt'', ''snowflake'', ''java'', ''go''|}
        {|''python''|} = Inr (1 / 6)"
    unfolding d0 by (simp add: ex_fcard0 ex_fcard1)
  have j: "(0::int) = - 1 \<or> (\<exists>r a. iloc ex_rows 0 = Inr r \<and> py_int (cells r ''Employee Age'') = Inr a
                              \<and> \<not> (40 \<le> a \<and> a \<le> 65))"
    by (rule t40 [THEN conjunct2, THEN conjunct2, THEN conjunct1, THEN mp])
       (rule ex_score_row0_old)
  have f: "\<exists>pool i s. retrieve ex_engine ''analytics'' = Inr pool \<and> (i, s) \<in> set pool
             \<and> score ex_alice_open = ROLE_WEIGHT * s + SKILL_WEIGHT * 1 + AGE_WEIGHT * 1"
    by (rule t18 [THEN conjunct2, THEN conjunct2, THEN conjunct2, THEN mp])
       (intro conjI ex_keywords_none ex_search_open m)
  then have g: "\<exists>s. score ex_alice_open = ROLE_WEIGHT * s + SKILL_WEIGHT * 1 + AGE_WEIGHT * 1"
    by (elim exE conjE) (rule exI)
  show ?thesis
    by (intro conjI a b c d ex_score_row0_old j ex_keywords_none ex_search_open m g)
qed

text \<open>
  C9. The skill-match ratio is total and bounded: for every pair of finite string sets
  it returns a value (it never raises, in particular the division never has a zero
  denominator, which is \<open>max (len candidate_skills) 1\<close>), and the value lies in the
  closed interval from 0 to 1.
\<close>

theorem skills_match_ratio_bounded:
  "(\<exists>x. skills_match_ratio candidate_skills required_keywords = Inr x \<and> 0 \<le> x \<and> x \<le> 1)
   \<and> real (max (fcard candidate_skills) 1) \<noteq> 0"
  using skills_match_ratio_total [of candidate_skills required_keywords] by simp

theorem skills_match_ratio_bounded_witness:
  "(\<exists>x. skills_match_ratio {|''python'', ''sql'', ''dbt'', ''snowflake'', ''java'', ''go''|}
            {|''python''|} = Inr x \<and> 0 \<le> x \<and> x \<le> 1)
   \<and> skills_match_ratio {|''python'', ''sql'', ''dbt'', ''snowflake'', ''java'', ''go''|}
            {|''python''|} = Inr (1 / 6)"
  using skills_match_ratio_bounded
    [of "{|''python'', ''sql'', ''dbt'', ''snowflake'', ''java'', ''go''|}" "{|''python''|}"]
  by (simp add: ex_ratio1)

text \<open>
  C10. The parameter \<open>return_json\<close> has no effect: with the other arguments fixed,
  \<open>search\<close> returns the same list (or raises the same error) for \<open>True\<close> and \<open>False\<close>.
\<close>

theorem return_json_ignored:
  "search self query req_skills age_min age_max top_k True
     = search self query req_skills age_min age_max top_k False"
  by (simp add: search_def)

theorem return_json_ignored_witness:
  "search ex_engine ''analytics'' (Some ['' Python '', ''  '']) 18 65 5 True
     = Inr [ex_bob, ex_alice]"
  using return_json_ignored [of ex_engine "''analytics''" "Some ['' Python '', ''  '']" 18 65 5]
  by (simp add: ex_search)

end
